theory Spec2Isabelle
  imports Main "HOL-Library.AList"
begin

section \<open>The Photobucket client: signed requests and silo redirects\<close>

text \<open>
  A model of \<^verbatim>\<open>photobucket/__init__.py\<close>: the module constants, the helpers
  \<^verbatim>\<open>remove_empty\<close>, \<^verbatim>\<open>Base.clean_identifier\<close> and \<^verbatim>\<open>Base.parse_response\<close>, and
  \<^verbatim>\<open>Base.make_request\<close>. The libraries the module imports (\<^verbatim>\<open>requests\<close>,
  \<^verbatim>\<open>json\<close>, \<^verbatim>\<open>oauth2\<close>) are not part of the module: the transport and the JSON
  decoder are parameters of the model, and an OAuth request is the record of what
  the module hands to the signing library.
\<close>

subsection \<open>Module constants\<close>

definition REDIRECT :: int where
  "REDIRECT = 301"

definition NOT_REQUIRED :: int where
  "NOT_REQUIRED = 0"

definition REQUIRED :: int where
  "REQUIRED = 1"

definition OPTIONAL :: int where
  "OPTIONAL = 2"

definition DOMAIN :: string where
  "DOMAIN = ''api.photobucket.com''"

subsection \<open>Parameter values and dictionaries\<close>

text \<open>
  A parameter value is \<^verbatim>\<open>None\<close>, a string, or a list of strings (an identifier given
  as path segments). A dictionary is an association list read with \<^const>\<open>map_of\<close>;
  \<^verbatim>\<open>d[k] = v\<close> is \<^const>\<open>AList.update\<close> and \<^verbatim>\<open>del d[k]\<close> is \<^const>\<open>AList.delete\<close>.
\<close>

datatype pval = VNone | VStr string | VList "string list"

type_synonym dict = "(string \<times> pval) list"

definition setdefault :: "string \<Rightarrow> pval \<Rightarrow> dict \<Rightarrow> dict" where
  "setdefault k v d = (if map_of d k = None then AList.update k v d else d)"

text \<open>
  \<^verbatim>\<open>remove_empty(d)\<close>: the loop runs over the list \<^verbatim>\<open>d.keys()\<close> taken before the
  first deletion (Python 2), and deletes from \<^verbatim>\<open>d\<close> itself.
\<close>

fun remove_empty_loop :: "string list \<Rightarrow> dict \<Rightarrow> dict" where
  "remove_empty_loop [] d = d"
| "remove_empty_loop (key # keys) d =
     remove_empty_loop keys (if map_of d key = Some VNone then AList.delete key d else d)"

definition remove_empty :: "dict \<Rightarrow> dict" where
  "remove_empty d = remove_empty_loop (map fst d) d"

text \<open>\<^verbatim>\<open>sep.join(xs)\<close> on a list of strings.\<close>

fun join :: "string \<Rightarrow> string list \<Rightarrow> string" where
  "join sep [] = []"
| "join sep [x] = x"
| "join sep (x # y # ys) = x @ sep @ join sep (y # ys)"

fun clean_identifier :: "pval \<Rightarrow> pval" where
  "clean_identifier (VList identifier) = VStr (join ''%2F'' identifier)"
| "clean_identifier identifier = identifier"

text \<open>
  Lines 125 and 130 to 134 of \<^verbatim>\<open>make_request\<close>. \<^verbatim>\<open>params or dict()\<close> keeps the
  caller's dictionary when it is not empty and takes a fresh one otherwise:
  \<^term>\<open>aliased params\<close> says that the local name is bound to the caller's object, so
  that the three updates are made to it.
\<close>

definition aliased :: "dict option \<Rightarrow> bool" where
  "aliased params = (case params of None \<Rightarrow> False | Some d \<Rightarrow> d \<noteq> [])"

definition clean_id :: "dict \<Rightarrow> dict" where
  "clean_id p = (case map_of p ''id'' of
                   None \<Rightarrow> p
                 | Some v \<Rightarrow> AList.update ''id'' (clean_identifier v) p)"

definition prepare_params :: "dict option \<Rightarrow> dict" where
  "prepare_params params =
     remove_empty (clean_id (setdefault ''format'' (VStr ''json'')
       (case params of None \<Rightarrow> [] | Some d \<Rightarrow> d)))"

subsection \<open>The client object\<close>

datatype api = Base | Album | GroupAlbums | Media | Search | Users

fun URI :: "api \<Rightarrow> string" where
  "URI Base = ''/''"
| "URI Album = ''/album/!''"
| "URI GroupAlbums = ''/group/!''"
| "URI Media = ''/media/!''"
| "URI Search = ''/search/!''"
| "URI Users = ''/user/!''"

record client =
  cls :: api
  key :: string
  secret :: string
  token :: "string option"
  token_secret :: "string option"
  subdomain :: string

text \<open>\<^verbatim>\<open>Base.__init__\<close>; \<^verbatim>\<open>subdomain or self.DOMAIN\<close> replaces \<^verbatim>\<open>None\<close> and the empty string.\<close>

definition init :: "api \<Rightarrow> string \<Rightarrow> string \<Rightarrow> string option \<Rightarrow> string option \<Rightarrow> string option
    \<Rightarrow> client" where
  "init c k s t ts sub =
     \<lparr>cls = c, key = k, secret = s, token = t, token_secret = ts,
      subdomain = (case sub of None \<Rightarrow> DOMAIN | Some d \<Rightarrow> if d = [] then DOMAIN else d)\<rparr>"

subsection \<open>Responses, errors and the libraries\<close>

record response =
  status_code :: int
  content :: string

text \<open>A \<^verbatim>\<open>requests.exceptions.HTTPError\<close>: its message and the response it carries.\<close>

record http_error =
  message :: string
  http_response :: response

datatype error =
    PhotobucketAPIError string
  | PhotobucketError string response
  | KeyError string
  | TypeError
  | AttributeError
  | IndexError
  | ValueError
  | TransportError string

text \<open>
  What \<^verbatim>\<open>make_request\<close> hands to \<^verbatim>\<open>oauth2\<close>: the arguments of
  \<^verbatim>\<open>Request.from_consumer_and_token\<close>, the \<^verbatim>\<open>normalized_url\<close> assigned afterwards,
  and the consumer and token given to \<^verbatim>\<open>sign_request\<close>. The signature is computed by
  the library over the method, \<^verbatim>\<open>normalized_url\<close> and the parameters;
  \<^verbatim>\<open>to_url()\<close> is built on \<^verbatim>\<open>url\<close>.
\<close>

record oauth_request =
  http_method :: string
  url :: string
  parameters :: dict
  body :: string
  normalized_url :: string
  consumer :: "string \<times> string"
  oauth_token :: "(string \<times> string) option"

text \<open>One call of a function of the \<^verbatim>\<open>requests\<close> module.\<close>

record call =
  request :: oauth_request
  headers :: "(string \<times> string) list"
  allow_redirects :: bool

datatype json =
    JNull
  | JBool bool
  | JNum int
  | JStr string
  | JArr "json list"
  | JObj "(string \<times> json) list"

text \<open>
  What a call of one of the request functions of \<^verbatim>\<open>requests\<close> may raise instead of
  answering with a response: an \<^verbatim>\<open>AttributeError\<close>, which line 171 catches, or an
  exception that \<^verbatim>\<open>make_request\<close> does not catch (a connection error, a timeout),
  reported as \<open>TransportError\<close>. The \<^verbatim>\<open>HTTPError\<close> that line 173 catches is the one
  of \<^verbatim>\<open>raise_for_status\<close>.
\<close>

datatype raised = AttributeErrorRaised | OtherRaised string

text \<open>
  What \<^verbatim>\<open>getattr(requests, name)\<close> finds, when the module has the attribute: one of
  the request functions (\<^verbatim>\<open>get\<close>, \<^verbatim>\<open>post\<close>, ...), which takes the call and the state of
  the network, or anything else the module holds under a lower-case name
  (\<^verbatim>\<open>session\<close>, \<^verbatim>\<open>request\<close>, \<^verbatim>\<open>codes\<close>, a submodule, \<^verbatim>\<open>__doc__\<close>). Called as line 169
  calls it, with the URL and the keywords \<^verbatim>\<open>headers\<close> and \<^verbatim>\<open>allow_redirects\<close>, such an
  attribute raises \<^verbatim>\<open>TypeError\<close> before anything is sent.
\<close>

datatype 'w attribute =
    Method "call \<Rightarrow> 'w \<Rightarrow> (raised + response) \<times> 'w"
  | Other

text \<open>
  The libraries as parameters. \<^verbatim>\<open>getattr(requests, name)\<close> is \<open>None\<close> where it raises
  \<^verbatim>\<open>AttributeError\<close>. \<^verbatim>\<open>response.raise_for_status(allow_redirects=b)\<close> gives the
  \<^verbatim>\<open>HTTPError\<close> it raises, if any. \<^verbatim>\<open>json.loads\<close> gives \<open>None\<close> where it raises
  \<^verbatim>\<open>ValueError\<close>.
\<close>

record 'w requests =
  getattr :: "string \<Rightarrow> 'w attribute option"
  raise_for_status :: "response \<Rightarrow> bool \<Rightarrow> http_error option"
  json_loads :: "string \<Rightarrow> json option"

text \<open>
  \<^verbatim>\<open>oauth2.Token(key, secret)\<close> raises \<^verbatim>\<open>ValueError\<close> (here \<open>None\<close>) when the key or
  the secret is \<^verbatim>\<open>None\<close>: the case that \<^verbatim>\<open>make_request\<close> catches and reports as
  "Token and Token secret must be set."
\<close>

definition Token :: "string option \<Rightarrow> string option \<Rightarrow> (string \<times> string) option" where
  "Token k s = (case k of None \<Rightarrow> None
                | Some k' \<Rightarrow> (case s of None \<Rightarrow> None | Some s' \<Rightarrow> Some (k', s')))"

subsection \<open>Strings\<close>

text \<open>\<^verbatim>\<open>str.lower()\<close> on ASCII.\<close>

definition lower_char :: "char \<Rightarrow> char" where
  "lower_char c =
     (case map_of (zip ''ABCDEFGHIJKLMNOPQRSTUVWXYZ'' ''abcdefghijklmnopqrstuvwxyz'') c of
        None \<Rightarrow> c
      | Some l \<Rightarrow> l)"

definition lower :: "string \<Rightarrow> string" where
  "lower s = map lower_char s"

text \<open>
  \<^verbatim>\<open>s.split(sep)\<close> for a separator that is not empty: the pieces between the
  occurrences of \<open>sep\<close>, found from the left without overlap. \<open>acc\<close> holds the current
  piece, reversed.
\<close>

function split_loop :: "string \<Rightarrow> string \<Rightarrow> string \<Rightarrow> string list" where
  "split_loop sep acc [] = [rev acc]"
| "split_loop sep acc (c # cs) =
     (if sep \<noteq> [] \<and> take (length sep) (c # cs) = sep
      then rev acc # split_loop sep [] (drop (length sep) (c # cs))
      else split_loop sep (c # acc) cs)"
  by pat_completeness auto
termination
  by (relation "measure (\<lambda>(sep, acc, s). length s)") auto

definition split :: "string \<Rightarrow> string \<Rightarrow> string list" where
  "split sep s = split_loop sep [] s"

subsection \<open>Parsing the body of a redirect\<close>

definition parse_response :: "(string \<Rightarrow> json option) \<Rightarrow> string \<Rightarrow> pval \<Rightarrow> error + json" where
  "parse_response loads resp format =
     (if format = VStr ''json''
      then (case loads resp of None \<Rightarrow> Inl ValueError | Some j \<Rightarrow> Inr j)
      else Inr (JStr resp))"

text \<open>\<^verbatim>\<open>obj[k]\<close> with a string \<open>k\<close>: only a dictionary can be read that way.\<close>

fun getitem :: "json \<Rightarrow> string \<Rightarrow> error + json" where
  "getitem (JObj kvs) k = (case map_of kvs k of None \<Rightarrow> Inl (KeyError k) | Some v \<Rightarrow> Inr v)"
| "getitem _ k = Inl TypeError"

text \<open>\<^verbatim>\<open>obj.split('//')[1]\<close>: only a string has \<^verbatim>\<open>split\<close>; the list may be too short.\<close>

fun split_second :: "json \<Rightarrow> error + string" where
  "split_second (JStr s) =
     (case split ''//'' s of _ # x # _ \<Rightarrow> Inr x | _ \<Rightarrow> Inl IndexError)"
| "split_second _ = Inl AttributeError"

text \<open>
  Lines 181 and 183: the value assigned to \<^verbatim>\<open>self.subdomain\<close>, or the exception
  that one of the steps raises. \<open>p\<close> is the local \<^verbatim>\<open>params\<close>.
\<close>

definition redirect_subdomain :: "(string \<Rightarrow> json option) \<Rightarrow> string \<Rightarrow> dict \<Rightarrow> error + string" where
  "redirect_subdomain loads resp p =
     (case map_of p ''format'' of
        None \<Rightarrow> Inl (KeyError ''format'')
      | Some format \<Rightarrow>
          (case parse_response loads resp format of
             Inl e \<Rightarrow> Inl e
           | Inr parsed \<Rightarrow>
               (case getitem parsed ''content'' of
                  Inl e \<Rightarrow> Inl e
                | Inr c \<Rightarrow>
                    (case getitem c ''subdomain'' of
                       Inl e \<Rightarrow> Inl e
                     | Inr s \<Rightarrow> split_second s))))"

subsection \<open>Building the signed request\<close>

text \<open>Lines 137 to 146: the token, \<^verbatim>\<open>None\<close> when it is not asked for or tolerated missing.\<close>

definition build_token :: "client \<Rightarrow> int \<Rightarrow> error + (string \<times> string) option" where
  "build_token self auth =
     (if auth = REQUIRED \<or> auth = OPTIONAL
      then (case Token (token self) (token_secret self) of
              Some t \<Rightarrow> Inr (Some t)
            | None \<Rightarrow>
                if auth = REQUIRED
                then Inl (PhotobucketAPIError ''Token and Token secret must be set.'')
                else Inr None)
      else Inr None)"

text \<open>Line 149: \<^verbatim>\<open>base_uri or self.URI\<close>, then the path.\<close>

definition req_uri :: "client \<Rightarrow> string option \<Rightarrow> string \<Rightarrow> string" where
  "req_uri self base_uri u =
     (case base_uri of
        None \<Rightarrow> URI (cls self)
      | Some b \<Rightarrow> if b = [] then URI (cls self) else b) @ u"

record kwargs =
  kw_body :: "string option"
  extra_headers :: "(string \<times> string) list option"

text \<open>Lines 127 and 128.\<close>

definition build_headers :: "kwargs \<Rightarrow> (string \<times> string) list" where
  "build_headers kw =
     fold (\<lambda>(k, v). AList.update k v)
       (case extra_headers kw of None \<Rightarrow> [] | Some hs \<Rightarrow> hs)
       [(''User-Agent'', ''python-photobucket/0.2 (Language=Python)''),
        (''Content-type'', ''application/x-www-form-urlencoded'')]"

text \<open>Lines 126 and 151 to 165, and the arguments of the call of line 169.\<close>

definition build_call :: "client \<Rightarrow> (string \<times> string) option \<Rightarrow> string \<Rightarrow> string option
    \<Rightarrow> dict \<Rightarrow> string \<Rightarrow> bool \<Rightarrow> kwargs \<Rightarrow> call" where
  "build_call self tok u base_uri p method silo kw =
     \<lparr>request =
        \<lparr>http_method = method,
         url = (if silo then ''http://'' @ subdomain self @ req_uri self base_uri u
                else ''http://'' @ DOMAIN @ req_uri self base_uri u),
         parameters = p,
         body = (case kw_body kw of None \<Rightarrow> [] | Some b \<Rightarrow> b),
         normalized_url = ''http://'' @ DOMAIN @ req_uri self base_uri u,
         consumer = (key self, secret self),
         oauth_token = tok\<rparr>,
      headers = build_headers kw,
      allow_redirects = (\<not> silo)\<rparr>"

subsection \<open>make_request\<close>

text \<open>
  What a call leaves behind: what it returns or raises, the client, the caller's
  \<^verbatim>\<open>params\<close> object, the state of the network and the calls made to the transport,
  in order.
\<close>

record 'w outcome =
  result :: "error + response"
  self_after :: client
  params_after :: "dict option"
  world :: 'w
  sent :: "call list"

text \<open>
  One pass through the body of \<^verbatim>\<open>make_request\<close>, up to the recursive call of line
  184: either the call is over, or it calls itself with the new subdomain stored.
  Line 169 looks the method up, which raises \<^verbatim>\<open>AttributeError\<close> when the module has no
  such attribute, and calls what it finds, which raises \<^verbatim>\<open>TypeError\<close> when that is not
  a request function; an \<^verbatim>\<open>AttributeError\<close> from either step, or from inside the
  request function, is caught by line 171, and the \<^verbatim>\<open>TypeError\<close> by nothing.
\<close>

datatype 'w pass = Done "'w outcome" | Again client 'w dict call

definition pass :: "'w requests \<Rightarrow> client \<Rightarrow> 'w \<Rightarrow> string \<Rightarrow> string option \<Rightarrow> dict option
    \<Rightarrow> int \<Rightarrow> string \<Rightarrow> bool \<Rightarrow> kwargs \<Rightarrow> 'w pass" where
  "pass rq self w u base_uri params auth method silo kw =
     (let p = prepare_params params;
          after = (if aliased params then Some p else params)
      in case build_token self auth of
           Inl e \<Rightarrow>
             Done \<lparr>result = Inl e, self_after = self, params_after = after,
                   world = w, sent = []\<rparr>
         | Inr tok \<Rightarrow>
             (let c = build_call self tok u base_uri p method silo kw
              in case getattr rq (lower method) of
                   None \<Rightarrow>
                     Done \<lparr>result = Inl (PhotobucketAPIError ''Invalid Http method''),
                           self_after = self, params_after = after, world = w, sent = []\<rparr>
                 | Some Other \<Rightarrow>
                     Done \<lparr>result = Inl TypeError, self_after = self, params_after = after,
                           world = w, sent = []\<rparr>
                 | Some (Method f) \<Rightarrow>
                     (case f c w of
                        (Inl AttributeErrorRaised, w') \<Rightarrow>
                          Done \<lparr>result = Inl (PhotobucketAPIError ''Invalid Http method''),
                                self_after = self, params_after = after, world = w',
                                sent = [c]\<rparr>
                      | (Inl (OtherRaised x), w') \<Rightarrow>
                          Done \<lparr>result = Inl (TransportError x), self_after = self,
                                params_after = after, world = w', sent = [c]\<rparr>
                      | (Inr r, w') \<Rightarrow>
                          (case raise_for_status rq r (\<not> silo) of
                             None \<Rightarrow>
                               Done \<lparr>result = Inr r, self_after = self, params_after = after,
                                     world = w', sent = [c]\<rparr>
                           | Some e \<Rightarrow>
                               if status_code (http_response e) = REDIRECT
                               then (case redirect_subdomain (json_loads rq)
                                            (content (http_response e)) p of
                                       Inl x \<Rightarrow>
                                         Done \<lparr>result = Inl x, self_after = self,
                                               params_after = after, world = w', sent = [c]\<rparr>
                                     | Inr s \<Rightarrow> Again (self\<lparr>subdomain := s\<rparr>) w' p c)
                               else Done \<lparr>result = Inl (PhotobucketError (message e)
                                                          (http_response e)),
                                          self_after = self, params_after = after,
                                          world = w', sent = [c]\<rparr>))))"

text \<open>
  \<^verbatim>\<open>make_request\<close>. The recursive call gets the local \<^verbatim>\<open>params\<close>, which is the
  caller's object when \<^term>\<open>aliased params\<close>, so what the nested call leaves in it
  is what the caller finds. The recursion has no bound of its own: a call that never
  returns (the transport answering every retry with a redirect) has the value
  \<open>None\<close>. The interpreter would end such a call at its recursion limit, after that
  many requests; the limit is not part of the module and is not modelled.
\<close>

partial_function (option) make_request :: "'w requests \<Rightarrow> client \<Rightarrow> 'w \<Rightarrow> string
    \<Rightarrow> string option \<Rightarrow> dict option \<Rightarrow> int \<Rightarrow> string \<Rightarrow> bool \<Rightarrow> kwargs \<Rightarrow> 'w outcome option" where
  "make_request rq self w u base_uri params auth method silo kw =
     (case pass rq self w u base_uri params auth method silo kw of
        Done out \<Rightarrow> Some out
      | Again self' w' p c \<Rightarrow>
          Option.bind (make_request rq self' w' u base_uri (Some p) auth method silo kw)
            (\<lambda>out. Some (out\<lparr>params_after := (if aliased params then params_after out
                                                else params),
                               sent := c # sent out\<rparr>)))"

declare make_request.simps [code]

subsection \<open>A scripted transport\<close>

text \<open>
  A transport to run the model on. Its \<^verbatim>\<open>raise_for_status\<close> is the one of the
  \<^verbatim>\<open>requests\<close> releases that take \<^verbatim>\<open>allow_redirects\<close>: a 3xx status is an error
  only when redirects are not followed, 4xx and 5xx always. The server sends a call to
  the main domain on to the silo \<^verbatim>\<open>s123.host.com\<close>, that silo sends it on to
  \<^verbatim>\<open>s456.host.com\<close>, which serves it; the silo \<^verbatim>\<open>s9.host.com\<close> is out of order and
  every other address is unknown. When redirects are allowed the transport follows
  them itself and answers with the last response. The address \<^verbatim>\<open>/album/!/url\<close> of the
  main domain answers 301 with the silo in its body but with no \<^verbatim>\<open>Location\<close> header:
  the transport has nothing to follow and hands the 301 back, whether redirects are
  allowed or not. The state of the network is the number of requests served. Besides
  the request functions the module has \<^verbatim>\<open>session\<close>, \<^verbatim>\<open>request\<close> and \<^verbatim>\<open>codes\<close>.
\<close>

definition dq :: string where
  "dq = [CHR 0x22]"

definition moved_to :: "string \<Rightarrow> string" where
  "moved_to host =
     concat [''{'', dq, ''content'', dq, '':{'', dq, ''subdomain'', dq, '':'', dq,
             ''http://'', host, dq, ''}}'']"

definition mock_raise_for_status :: "response \<Rightarrow> bool \<Rightarrow> http_error option" where
  "mock_raise_for_status r allow =
     (if 300 \<le> status_code r \<and> status_code r < 400 \<and> \<not> allow
      then Some \<lparr>message = ''Redirection'', http_response = r\<rparr>
      else if 400 \<le> status_code r \<and> status_code r < 500
      then Some \<lparr>message = ''Client Error'', http_response = r\<rparr>
      else if 500 \<le> status_code r \<and> status_code r < 600
      then Some \<lparr>message = ''Server Error'', http_response = r\<rparr>
      else None)"

definition mock_server :: "call \<Rightarrow> nat \<Rightarrow> (raised + response) \<times> nat" where
  "mock_server c n =
     (if url (request c) = ''http://api.photobucket.com/album/!''
      then (if allow_redirects c
            then (Inr \<lparr>status_code = 200, content = ''{}''\<rparr>, Suc (Suc (Suc n)))
            else (Inr \<lparr>status_code = 301, content = moved_to ''s123.host.com''\<rparr>, Suc n))
      else if url (request c) = ''http://api.photobucket.com/album/!/url''
      then (Inr \<lparr>status_code = 301, content = moved_to ''s123.host.com''\<rparr>, Suc n)
      else if url (request c) = ''http://s123.host.com/album/!''
      then (Inr \<lparr>status_code = 301, content = moved_to ''s456.host.com''\<rparr>, Suc n)
      else if url (request c) = ''http://s456.host.com/album/!''
      then (Inr \<lparr>status_code = 200, content = ''{}''\<rparr>, Suc n)
      else if url (request c) = ''http://s9.host.com/album/!''
      then (Inr \<lparr>status_code = 500, content = ''{}''\<rparr>, Suc n)
      else (Inr \<lparr>status_code = 404, content = ''{}''\<rparr>, Suc n))"

definition mock_getattr :: "string \<Rightarrow> nat attribute option" where
  "mock_getattr name =
     (if name \<in> set [''get'', ''head'', ''post'', ''put'', ''patch'', ''delete'', ''options'']
      then Some (Method mock_server)
      else if name \<in> set [''session'', ''request'', ''codes'']
      then Some Other
      else None)"

definition mock_loads :: "string \<Rightarrow> json option" where
  "mock_loads s =
     (if s = moved_to ''s123.host.com''
      then Some (JObj [(''content'', JObj [(''subdomain'', JStr ''http://s123.host.com'')])])
      else if s = moved_to ''s456.host.com''
      then Some (JObj [(''content'', JObj [(''subdomain'', JStr ''http://s456.host.com'')])])
      else if s = ''{}'' then Some (JObj [])
      else None)"

definition mock :: "nat requests" where
  "mock = \<lparr>getattr = mock_getattr, raise_for_status = mock_raise_for_status,
            json_loads = mock_loads\<rparr>"

text \<open>An album client with a token, one without, and a call without keyword arguments.\<close>

definition album :: client where
  "album = init Album ''key'' ''secret'' (Some ''token'') (Some ''token_secret'') None"

definition anonymous :: client where
  "anonymous = init Album ''key'' ''secret'' None None None"

definition no_kwargs :: kwargs where
  "no_kwargs = \<lparr>kw_body = None, extra_headers = None\<rparr>"

section \<open>Properties of the helpers\<close>

subsection \<open>Dictionaries\<close>

lemma map_of_remove_empty_loop:
  "map_of (remove_empty_loop ks d) k =
     (if k \<in> set ks \<and> map_of d k = Some VNone then None else map_of d k)"
  by (induction ks arbitrary: d) (auto simp: delete_conv)

lemma map_of_remove_empty:
  "map_of (remove_empty d) k = (if map_of d k = Some VNone then None else map_of d k)"
  by (auto simp: remove_empty_def map_of_remove_empty_loop dest: map_of_SomeD intro: rev_image_eqI)

lemma remove_empty_loop_id:
  "\<forall>k. map_of d k \<noteq> Some VNone \<Longrightarrow> remove_empty_loop ks d = d"
  by (induction ks) auto

lemma remove_empty_idem: "remove_empty (remove_empty d) = remove_empty d"
  by (simp add: remove_empty_def[of "remove_empty d"] remove_empty_loop_id map_of_remove_empty)

lemma clean_identifier_idem: "clean_identifier (clean_identifier v) = clean_identifier v"
  by (cases v) auto

lemma clean_identifier_not_list: "clean_identifier v \<noteq> VList xs"
  by (cases v) auto

lemma clean_identifier_None: "clean_identifier v = VNone \<longleftrightarrow> v = VNone"
  by (cases v) auto

lemma map_of_setdefault:
  "map_of (setdefault k v d) k' =
     (if k' = k \<and> map_of d k = None then Some v else map_of d k')"
  by (simp add: setdefault_def update_conv)

lemma map_of_clean_id:
  "map_of (clean_id p) k =
     (if k = ''id'' then map_option clean_identifier (map_of p ''id'') else map_of p k)"
  by (simp add: clean_id_def update_conv split: option.splits)

lemma map_of_prepare_params:
  "map_of (prepare_params params) k =
     (let d = (case params of None \<Rightarrow> [] | Some d \<Rightarrow> d);
          v = (if k = ''format'' \<and> map_of d k = None then Some (VStr ''json'') else map_of d k);
          v' = (if k = ''id'' then map_option clean_identifier v else v)
      in if v' = Some VNone then None else v')"
  by (auto simp: prepare_params_def map_of_remove_empty map_of_clean_id map_of_setdefault Let_def)

lemma prepare_params_no_None: "map_of (prepare_params params) k \<noteq> Some VNone"
  by (simp add: prepare_params_def map_of_remove_empty)

lemma prepare_params_idem:
  assumes "map_of (prepare_params params) ''format'' \<noteq> None"
  shows "prepare_params (Some (prepare_params params)) = prepare_params params"
proof -
  let ?p = "prepare_params params"
  have a: "setdefault ''format'' (VStr ''json'') ?p = ?p"
    using assms by (auto simp: setdefault_def)
  have "map_of ?p ''id'' = Some v \<Longrightarrow> clean_identifier v = v" for v
    by (auto simp: map_of_prepare_params Let_def clean_identifier_idem split: if_splits)
  then have b: "clean_id ?p = ?p"
    by (auto simp: clean_id_def update_triv split: option.splits)
  have c: "remove_empty ?p = ?p"
    by (simp add: remove_empty_def remove_empty_loop_id prepare_params_no_None)
  show ?thesis
    by (simp add: prepare_params_def[of "Some ?p"] a b c)
qed

lemma prepare_params_nonempty:
  "map_of (prepare_params params) ''format'' \<noteq> None \<Longrightarrow> aliased (Some (prepare_params params))"
  by (auto simp: aliased_def)

subsection \<open>One pass and the recursion\<close>

lemma getitem_error: "getitem j k = Inl e \<Longrightarrow> e = TypeError \<or> e = KeyError k"
  by (cases j) (auto split: option.splits)

lemma split_second_error: "split_second j = Inl e \<Longrightarrow> e = IndexError \<or> e = AttributeError"
  by (cases j) (auto split: list.splits)

lemma redirect_subdomain_error:
  "redirect_subdomain loads resp p = Inl e \<Longrightarrow>
     e \<in> {KeyError ''format'', ValueError, TypeError, KeyError ''content'',
          KeyError ''subdomain'', AttributeError, IndexError}"
  by (auto simp: redirect_subdomain_def parse_response_def
      split: option.splits sum.splits if_splits
      dest: getitem_error split_second_error)

lemma pass_Done:
  assumes "pass rq self w u b params auth m silo kw = Done out"
  shows "self_after out = self"
    and "params_after out = (if aliased params then Some (prepare_params params) else params)"
    and "sent out = [] \<or> (\<exists>tok. build_token self auth = Inr tok \<and>
           sent out = [build_call self tok u b (prepare_params params) m silo kw])"
    and "result out = Inl (PhotobucketAPIError msg) \<Longrightarrow>
           build_token self auth = Inl (PhotobucketAPIError msg) \<or>
           msg = ''Invalid Http method''"
  using assms
  by (auto simp: pass_def Let_def
      split: sum.splits option.splits prod.splits if_splits raised.splits attribute.splits
      dest: redirect_subdomain_error)

lemma pass_Again:
  assumes "pass rq self w u b params auth m silo kw = Again self' w' p c"
  shows "p = prepare_params params"
    and "map_of p ''format'' \<noteq> None"
    and "\<exists>s. self' = self\<lparr>subdomain := s\<rparr>"
    and "\<exists>tok. build_token self auth = Inr tok \<and> c = build_call self tok u b p m silo kw"
  using assms
  by (auto simp: pass_def Let_def redirect_subdomain_def
      split: sum.splits option.splits prod.splits if_splits raised.splits attribute.splits)

lemma build_token_subdomain: "build_token (self\<lparr>subdomain := s\<rparr>) auth = build_token self auth"
  by (simp add: build_token_def)

lemma make_request_invariant:
  assumes "make_request rq self w u b params auth m silo kw = Some out"
  shows "(\<exists>s. self_after out = self\<lparr>subdomain := s\<rparr>) \<and>
         params_after out = (if aliased params then Some (prepare_params params) else params) \<and>
         (\<forall>c \<in> set (sent out). \<exists>s tok. build_token self auth = Inr tok \<and>
             c = build_call (self\<lparr>subdomain := s\<rparr>) tok u b (prepare_params params) m silo kw) \<and>
         (\<forall>msg. result out = Inl (PhotobucketAPIError msg) \<longrightarrow>
             build_token self auth = Inl (PhotobucketAPIError msg) \<or>
             msg = ''Invalid Http method'')"
  using assms
proof (induction rq self w u b params auth m silo kw out
    rule: make_request.raw_induct[rotated, consumes 1, case_names step])
  case (step mr rq self w u b params auth m silo kw out)
  note 1 = step
  show ?case
  proof (cases "pass rq self w u b params auth m silo kw")
    case (Done o1)
    with 1(2) have "out = o1" by simp
    with pass_Done[OF Done] show ?thesis
      apply (intro conjI)
      subgoal by (rule exI[of _ "subdomain self"]) simp
      subgoal by simp
      subgoal by (auto intro: exI[of _ "subdomain self"])
      subgoal by blast
      done
  next
    case (Again self' w' p c)
    note A = pass_Again[OF Again]
    from 1(2) Again obtain o1 where
      rec: "mr rq self' w' u b (Some p) auth m silo kw = Some o1" and
      out: "out = o1\<lparr>params_after := (if aliased params then params_after o1 else params),
                      sent := c # sent o1\<rparr>"
      by (auto simp: bind_eq_Some_conv)
    from A(3) obtain s where s: "self' = self\<lparr>subdomain := s\<rparr>" by blast
    have idem: "prepare_params (Some p) = p"
      using A(1,2) prepare_params_idem by simp
    have al: "aliased (Some p)" using A(2) by (auto simp: aliased_def)
    note IH = 1(1)[OF rec, unfolded idem s build_token_subdomain]
    from A(4) obtain tok where tok: "build_token self auth = Inr tok"
      "c = build_call self tok u b p m silo kw" by blast
    have c: "\<exists>s tok. build_token self auth = Inr tok \<and>
        c = build_call (self\<lparr>subdomain := s\<rparr>) tok u b (prepare_params params) m silo kw"
      using tok A(1) by (intro exI[of _ "subdomain self"] exI[of _ tok]) simp
    have "\<forall>c \<in> set (sent out). \<exists>s tok. build_token self auth = Inr tok \<and>
        c = build_call (self\<lparr>subdomain := s\<rparr>) tok u b (prepare_params params) m silo kw"
    proof
      fix c' assume "c' \<in> set (sent out)"
      then have "c' = c \<or> c' \<in> set (sent o1)" by (auto simp: out)
      then show "\<exists>s tok. build_token self auth = Inr tok \<and>
        c' = build_call (self\<lparr>subdomain := s\<rparr>) tok u b (prepare_params params) m silo kw"
        using c IH A(1) by auto
    qed
    moreover have "\<exists>s. self_after out = self\<lparr>subdomain := s\<rparr>"
      using IH by (auto simp: out)
    moreover have "params_after out =
        (if aliased params then Some (prepare_params params) else params)"
      using IH al A(1) by (simp add: out)
    moreover have "\<forall>msg. result out = Inl (PhotobucketAPIError msg) \<longrightarrow>
        build_token self auth = Inl (PhotobucketAPIError msg) \<or>
        msg = ''Invalid Http method''"
      using IH by (simp add: out)
    ultimately show ?thesis by blast
  qed
qed

lemma split_loop_no_slash:
  "CHR ''/'' \<notin> set s \<Longrightarrow> split_loop ''//'' acc s = [rev acc @ s]"
  by (induction s arbitrary: acc) auto

lemma split_loop_scheme_host:
  "CHR ''/'' \<notin> set scheme \<Longrightarrow> CHR ''/'' \<notin> set host \<Longrightarrow>
     split_loop ''//'' acc (scheme @ ''//'' @ host) = [rev acc @ scheme, host]"
proof (induction scheme arbitrary: acc)
  case Nil
  then show ?case using split_loop_no_slash[of host "[]"] by simp
next
  case (Cons c scheme)
  then show ?case by auto
qed

lemma split_second_scheme_host:
  "CHR ''/'' \<notin> set scheme \<Longrightarrow> CHR ''/'' \<notin> set host \<Longrightarrow>
     split_second (JStr (scheme @ ''//'' @ host)) = Inr host"
  using split_loop_scheme_host[of scheme host "[]"] by (simp add: split_def)

lemma make_request_Done:
  "pass rq self w u b params auth m silo kw = Done out \<Longrightarrow>
     make_request rq self w u b params auth m silo kw = Some out"
  by (simp add: make_request.simps)

lemma make_request_Again:
  "pass rq self w u b params auth m silo kw = Again self' w' p c \<Longrightarrow>
     make_request rq self w u b params auth m silo kw =
     Option.bind (make_request rq self' w' u b (Some p) auth m silo kw)
       (\<lambda>out. Some (out\<lparr>params_after := (if aliased params then params_after out else params),
                          sent := c # sent out\<rparr>))"
  by (simp add: make_request.simps)

lemma pass_redirect:
  assumes "build_token self auth = Inr tok"
    and "getattr rq (lower m) = Some (Method f)"
    and "f (build_call self tok u b (prepare_params params) m silo kw) w = (Inr r, w')"
    and "raise_for_status rq r (\<not> silo) = Some e"
    and "status_code (http_response e) = REDIRECT"
    and "redirect_subdomain (json_loads rq) (content (http_response e)) (prepare_params params) = Inr s"
  shows "pass rq self w u b params auth m silo kw =
           Again (self\<lparr>subdomain := s\<rparr>) w' (prepare_params params)
             (build_call self tok u b (prepare_params params) m silo kw)"
  using assms by (simp add: pass_def Let_def)

lemma first_call:
  assumes "make_request rq self w u b params auth m silo kw = Some out"
    and "build_token self auth = Inr tok"
    and "getattr rq (lower m) = Some (Method f)"
  shows "\<exists>rest. sent out = build_call self tok u b (prepare_params params) m silo kw # rest"
proof (cases "pass rq self w u b params auth m silo kw")
  case (Done o1)
  then have "out = o1" using assms(1) by (simp add: make_request.simps)
  moreover have "sent o1 = [build_call self tok u b (prepare_params params) m silo kw]"
    using Done assms(2,3)
    by (auto simp: pass_def Let_def
        split: sum.splits option.splits prod.splits if_splits raised.splits attribute.splits)
  ultimately show ?thesis by simp
next
  case (Again self' w' p c)
  from pass_Again(4)[OF Again] pass_Again(1)[OF Again] assms(2)
  have "c = build_call self tok u b (prepare_params params) m silo kw" by auto
  then show ?thesis
    using assms(1) Again by (auto simp: make_request.simps bind_eq_Some_conv)
qed

lemmas mock_defs = mock_def mock_getattr_def mock_server_def mock_loads_def
  mock_raise_for_status_def moved_to_def dq_def album_def anonymous_def init_def no_kwargs_def

lemmas model_defs = pass_def build_call_def build_token_def Token_def req_uri_def
  build_headers_def prepare_params_def setdefault_def clean_id_def remove_empty_def aliased_def
  redirect_subdomain_def parse_response_def split_def lower_def lower_char_def
  REQUIRED_def OPTIONAL_def NOT_REQUIRED_def REDIRECT_def DOMAIN_def Let_def

lemma pass_Again_cause:
  assumes "pass rq self w u b params auth m silo kw = Again self' w' p c"
  shows "\<exists>tok f r e. build_token self auth = Inr tok \<and> getattr rq (lower m) = Some (Method f) \<and>
           f (build_call self tok u b (prepare_params params) m silo kw) w = (Inr r, w') \<and>
           raise_for_status rq r (\<not> silo) = Some e \<and>
           status_code (http_response e) = REDIRECT"
  using assms
  by (auto simp: pass_def Let_def
      split: sum.splits option.splits prod.splits if_splits raised.splits attribute.splits)

lemma redirect_subdomain_scheme_host:
  assumes "map_of p ''format'' = Some fmt"
    and "parse_response loads resp fmt = Inr j"
    and "getitem j ''content'' = Inr c1"
    and "getitem c1 ''subdomain'' = Inr (JStr (scheme @ ''//'' @ host))"
    and "CHR ''/'' \<notin> set scheme" and "CHR ''/'' \<notin> set host"
  shows "redirect_subdomain loads resp p = Inr host"
  using assms split_second_scheme_host[of scheme host]
  by (simp add: redirect_subdomain_def)

lemma join_concat: "join sep (x # xs) = x @ concat (map ((@) sep) xs)"
  by (induction xs arbitrary: x) auto

lemma sent_parameters:
  assumes "make_request rq self w u b params auth m silo kw = Some out"
    and "c \<in> set (sent out)"
  shows "parameters (request c) = prepare_params params"
    and "normalized_url (request c) = ''http://'' @ DOMAIN @ req_uri self b u"
    and "http_method (request c) = m"
    and "build_token self auth = Inr (oauth_token (request c))"
proof -
  from make_request_invariant[OF assms(1)] assms(2)
  obtain s tok where *: "build_token self auth = Inr tok"
    "c = build_call (self\<lparr>subdomain := s\<rparr>) tok u b (prepare_params params) m silo kw"
    by blast
  show "parameters (request c) = prepare_params params"
    and "normalized_url (request c) = ''http://'' @ DOMAIN @ req_uri self b u"
    and "http_method (request c) = m"
    and "build_token self auth = Inr (oauth_token (request c))"
    using * by (simp_all add: build_call_def req_uri_def split: option.splits)
qed


lemma build_token_missing:
  assumes "token self = None \<or> token_secret self = None"
  shows "build_token self auth =
           (if auth = REQUIRED
            then Inl (PhotobucketAPIError ''Token and Token secret must be set.'')
            else Inr None)"
  using assms
  by (auto simp: build_token_def Token_def REQUIRED_def OPTIONAL_def split: option.splits)

lemma pass_auth_error:
  "build_token self auth = Inl x \<Longrightarrow>
     pass rq self w u b params auth m silo kw =
       Done \<lparr>result = Inl x, self_after = self,
             params_after = (if aliased params then Some (prepare_params params) else params),
             world = w, sent = []\<rparr>"
  by (simp add: pass_def Let_def)

lemma pass_invalid_method:
  "build_token self auth = Inr tok \<Longrightarrow> getattr rq (lower m) = None \<Longrightarrow>
     pass rq self w u b params auth m silo kw =
       Done \<lparr>result = Inl (PhotobucketAPIError ''Invalid Http method''), self_after = self,
             params_after = (if aliased params then Some (prepare_params params) else params),
             world = w, sent = []\<rparr>"
  by (simp add: pass_def Let_def)

lemma pass_http_error:
  assumes "build_token self auth = Inr tok"
    and "getattr rq (lower m) = Some (Method f)"
    and "f (build_call self tok u b (prepare_params params) m silo kw) w = (Inr r, w')"
    and "raise_for_status rq r (\<not> silo) = Some e"
    and "status_code (http_response e) \<noteq> REDIRECT"
  shows "pass rq self w u b params auth m silo kw =
           Done \<lparr>result = Inl (PhotobucketError (message e) (http_response e)),
                 self_after = self,
                 params_after = (if aliased params then Some (prepare_params params) else params),
                 world = w',
                 sent = [build_call self tok u b (prepare_params params) m silo kw]\<rparr>"
  using assms by (simp add: pass_def Let_def)

text \<open>
  The two other ways out of line 169. An attribute that is not a request function
  raises \<^verbatim>\<open>TypeError\<close> when called, and nothing is sent. An \<^verbatim>\<open>AttributeError\<close> raised
  inside a request function is caught by line 171 like the one of \<^verbatim>\<open>getattr\<close>, after
  the request has gone out.
\<close>

lemma other_attribute_raises_TypeError:
  assumes "build_token self auth = Inr tok"
    and "getattr rq (lower m) = Some Other"
  shows "make_request rq self w u b params auth m silo kw =
           Some \<lparr>result = Inl TypeError, self_after = self,
                 params_after =
                   (if aliased params then Some (prepare_params params) else params),
                 world = w, sent = []\<rparr>"
  using assms by (intro make_request_Done) (simp add: pass_def Let_def)

lemma attribute_error_in_transport:
  assumes "build_token self auth = Inr tok"
    and "getattr rq (lower m) = Some (Method f)"
    and "f (build_call self tok u b (prepare_params params) m silo kw) w =
           (Inl AttributeErrorRaised, w')"
  shows "make_request rq self w u b params auth m silo kw =
           Some \<lparr>result = Inl (PhotobucketAPIError ''Invalid Http method''),
                 self_after = self,
                 params_after =
                   (if aliased params then Some (prepare_params params) else params),
                 world = w',
                 sent = [build_call self tok u b (prepare_params params) m silo kw]\<rparr>"
  using assms by (intro make_request_Done) (simp add: pass_def Let_def)

text \<open>
  Line 171 alone: when the module has no attribute of the name, the call raises
  \<^verbatim>\<open>PhotobucketAPIError\<close> and nothing is sent. The message is the one of the missing
  token when that check, which comes first, fails.
\<close>

lemma missing_attribute_is_usage_error:
  assumes "getattr rq (lower m) = None"
  shows "make_request rq self w u b params auth m silo kw =
           Some \<lparr>result = Inl (PhotobucketAPIError
                                 (case build_token self auth of
                                    Inl _ \<Rightarrow> ''Token and Token secret must be set.''
                                  | Inr _ \<Rightarrow> ''Invalid Http method'')),
                 self_after = self,
                 params_after =
                   (if aliased params then Some (prepare_params params) else params),
                 world = w, sent = []\<rparr>"
proof (cases "build_token self auth")
  case (Inl x)
  then have "x = PhotobucketAPIError ''Token and Token secret must be set.''"
    by (auto simp: build_token_def split: if_splits option.splits)
  moreover have "make_request rq self w u b params auth m silo kw =
      Some \<lparr>result = Inl x, self_after = self,
            params_after = (if aliased params then Some (prepare_params params) else params),
            world = w, sent = []\<rparr>"
    by (rule make_request_Done[OF pass_auth_error[OF Inl]])
  ultimately show ?thesis using Inl by simp
next
  case (Inr tok)
  have "make_request rq self w u b params auth m silo kw =
      Some \<lparr>result = Inl (PhotobucketAPIError ''Invalid Http method''), self_after = self,
            params_after = (if aliased params then Some (prepare_params params) else params),
            world = w, sent = []\<rparr>"
    by (rule make_request_Done[OF pass_invalid_method[OF Inr assms]])
  then show ?thesis using Inr by simp
qed

subsection \<open>Runs on the scripted transport\<close>

lemma album_silo_run:
  "make_request mock album 0 '''' None (Some [(''id'', VStr ''pics'')]) REQUIRED ''DELETE'' True
     no_kwargs =
   Some \<lparr>result = Inr \<lparr>status_code = 200, content = ''{}''\<rparr>,
         self_after = album\<lparr>subdomain := ''s456.host.com''\<rparr>,
         params_after = Some [(''id'', VStr ''pics''), (''format'', VStr ''json'')],
         world = 3,
         sent = [build_call album (Some (''token'', ''token_secret'')) '''' None
                   [(''id'', VStr ''pics''), (''format'', VStr ''json'')] ''DELETE'' True no_kwargs,
                 build_call (album\<lparr>subdomain := ''s123.host.com''\<rparr>)
                   (Some (''token'', ''token_secret'')) '''' None
                   [(''id'', VStr ''pics''), (''format'', VStr ''json'')] ''DELETE'' True no_kwargs,
                 build_call (album\<lparr>subdomain := ''s456.host.com''\<rparr>)
                   (Some (''token'', ''token_secret'')) '''' None
                   [(''id'', VStr ''pics''), (''format'', VStr ''json'')] ''DELETE'' True
                   no_kwargs]\<rparr>"
  by (simp add: make_request.simps mock_defs model_defs)

lemma album_main_run:
  "make_request mock album 0 '''' None (Some [(''id'', VStr ''pics'')]) REQUIRED ''DELETE'' False
     no_kwargs =
   Some \<lparr>result = Inr \<lparr>status_code = 200, content = ''{}''\<rparr>,
         self_after = album,
         params_after = Some [(''id'', VStr ''pics''), (''format'', VStr ''json'')],
         world = 3,
         sent = [build_call album (Some (''token'', ''token_secret'')) '''' None
                   [(''id'', VStr ''pics''), (''format'', VStr ''json'')] ''DELETE'' False
                   no_kwargs]\<rparr>"
  by (simp add: make_request.simps mock_defs model_defs)

lemma req_uri_subdomain: "req_uri (self\<lparr>subdomain := s\<rparr>) b u = req_uri self b u"
  by (simp add: req_uri_def split: option.splits)

lemma anonymous_optional_run:
  "make_request mock anonymous 0 '''' None (Some [(''id'', VStr ''pics'')]) OPTIONAL ''GET'' False
     no_kwargs =
   Some \<lparr>result = Inr \<lparr>status_code = 200, content = ''{}''\<rparr>,
         self_after = anonymous,
         params_after = Some [(''id'', VStr ''pics''), (''format'', VStr ''json'')],
         world = 3,
         sent = [build_call anonymous None '''' None
                   [(''id'', VStr ''pics''), (''format'', VStr ''json'')] ''GET'' False
                   no_kwargs]\<rparr>"
  by (simp add: make_request.simps mock_defs model_defs)

lemma album_follow_run:
  "make_request mock album 0 ''/follow/!'' None
     (Some [(''id'', VList [''a'', ''b'']), (''aid'', VNone), (''email'', VStr '''')])
     REQUIRED ''POST'' True no_kwargs =
   Some \<lparr>result = Inl (PhotobucketError ''Client Error'' \<lparr>status_code = 404, content = ''{}''\<rparr>),
         self_after = album,
         params_after = Some [(''id'', VStr ''a%2Fb''), (''email'', VStr ''''),
                              (''format'', VStr ''json'')],
         world = 1,
         sent = [build_call album (Some (''token'', ''token_secret'')) ''/follow/!'' None
                   [(''id'', VStr ''a%2Fb''), (''email'', VStr ''''), (''format'', VStr ''json'')]
                   ''POST'' True no_kwargs]\<rparr>"
  by (simp add: make_request.simps mock_defs model_defs)

section \<open>The claims\<close>

subsection \<open>C1: the retry after a redirect\<close>

text \<open>
  C1, as amended. The claim says that a 301 is retried exactly once and that a 301
  answered to the retry is not handled. The retry of line 184 is a call of
  \<^verbatim>\<open>make_request\<close> itself, with the new subdomain stored: when the transport raises
  an \<^verbatim>\<open>HTTPError\<close> whose response has status 301 and the body gives a subdomain
  \<open>s\<close>, the call is the call on the client with \<open>s\<close> stored, with the same
  \<^verbatim>\<open>url\<close>, \<^verbatim>\<open>base_uri\<close>, \<^verbatim>\<open>auth\<close>, \<^verbatim>\<open>method\<close>, \<^verbatim>\<open>silo\<close> and keyword arguments
  and the prepared \<^verbatim>\<open>params\<close>, after the first call to the transport. So there is one
  retry for each 301 received, and no bound on their number.
\<close>

theorem redirect_retry_is_a_full_call:
  assumes "build_token self auth = Inr tok"
    and "getattr rq (lower m) = Some (Method f)"
    and "f (build_call self tok u b (prepare_params params) m silo kw) w = (Inr r, w')"
    and "raise_for_status rq r (\<not> silo) = Some e"
    and "status_code (http_response e) = 301"
    and "redirect_subdomain (json_loads rq) (content (http_response e)) (prepare_params params)
           = Inr s"
  shows "make_request rq self w u b params auth m silo kw =
           Option.bind
             (make_request rq (self\<lparr>subdomain := s\<rparr>) w' u b (Some (prepare_params params))
                auth m silo kw)
             (\<lambda>out. Some (out\<lparr>params_after :=
                                  (if aliased params then params_after out else params),
                                sent := build_call self tok u b (prepare_params params) m silo kw
                                          # sent out\<rparr>))"
proof -
  have "status_code (http_response e) = REDIRECT"
    using assms(5) by (simp add: REDIRECT_def)
  from make_request_Again[OF pass_redirect[OF assms(1-4) this assms(6)]]
  show ?thesis .
qed

theorem redirect_retry_is_a_full_call_witness:
  "make_request mock album 0 '''' None (Some [(''id'', VStr ''pics'')]) REQUIRED ''DELETE'' True
     no_kwargs =
   Option.bind
     (make_request mock (album\<lparr>subdomain := ''s123.host.com''\<rparr>) 1 '''' None
        (Some [(''id'', VStr ''pics''), (''format'', VStr ''json'')]) REQUIRED ''DELETE'' True
        no_kwargs)
     (\<lambda>out. Some (out\<lparr>params_after := params_after out,
                        sent := build_call album (Some (''token'', ''token_secret'')) '''' None
                                  [(''id'', VStr ''pics''), (''format'', VStr ''json'')]
                                  ''DELETE'' True no_kwargs # sent out\<rparr>))"
  using redirect_retry_is_a_full_call [where rq = mock and self = album and w = 0 and u = "''''"
      and b = None and params = "Some [(''id'', VStr ''pics'')]" and auth = REQUIRED
      and m = "''DELETE''" and silo = True and kw = no_kwargs
      and tok = "Some (''token'', ''token_secret'')" and f = mock_server
      and r = "\<lparr>status_code = 301, content = moved_to ''s123.host.com''\<rparr>" and w' = 1
      and e = "\<lparr>message = ''Redirection'',
                http_response = \<lparr>status_code = 301, content = moved_to ''s123.host.com''\<rparr>\<rparr>"
      and s = "''s123.host.com''"]
  by (simp add: mock_defs model_defs)

text \<open>
  On the scripted transport the main domain and the first silo both answer 301: the
  request goes out three times, and the second 301 is handled as the first was.
\<close>

theorem single_retry_counterexample:
  "map_option (map (url \<circ> request) \<circ> sent)
     (make_request mock album 0 '''' None (Some [(''id'', VStr ''pics'')]) REQUIRED ''DELETE'' True
        no_kwargs) =
   Some [''http://api.photobucket.com/album/!'', ''http://s123.host.com/album/!'',
         ''http://s456.host.com/album/!'']"
  by (simp add: make_request.simps mock_defs model_defs)

subsection \<open>C2: the URL that is signed\<close>

text \<open>
  C2. The request that lines 151 to 165 build has \<^verbatim>\<open>normalized_url\<close> equal to
  \<^verbatim>\<open>http://api.photobucket.com\<close> followed by the composed path, whatever \<open>silo\<close> is, and
  so has every request that a call sends, retries included; a silo call and a call to
  the main domain with the same path, parameters and method sign the same method, URL
  and parameters.
\<close>

theorem signature_url_is_main_domain:
  "normalized_url (request (build_call self tok u b p m silo kw)) =
     ''http://api.photobucket.com'' @ req_uri self b u \<and>
   (make_request rq self w u b params auth m silo kw = Some out \<longrightarrow>
      (\<forall>c \<in> set (sent out).
          normalized_url (request c) = ''http://api.photobucket.com'' @ req_uri self b u)) \<and>
   (make_request rq self w u b params auth m True kw = Some out1 \<and>
    make_request rq' self' w' u b params auth' m False kw' = Some out2 \<and>
    cls self' = cls self \<longrightarrow>
      (\<forall>c1 \<in> set (sent out1). \<forall>c2 \<in> set (sent out2).
          normalized_url (request c1) = normalized_url (request c2) \<and>
          http_method (request c1) = http_method (request c2) \<and>
          parameters (request c1) = parameters (request c2)))"
proof (intro conjI impI ballI)
  show "normalized_url (request (build_call self tok u b p m silo kw)) =
      ''http://api.photobucket.com'' @ req_uri self b u"
    by (simp add: build_call_def DOMAIN_def)
next
  fix c assume "make_request rq self w u b params auth m silo kw = Some out" "c \<in> set (sent out)"
  from sent_parameters(2)[OF this]
  show "normalized_url (request c) = ''http://api.photobucket.com'' @ req_uri self b u"
    by (simp add: DOMAIN_def)
next
  fix c1 c2
  assume a: "make_request rq self w u b params auth m True kw = Some out1 \<and>
    make_request rq' self' w' u b params auth' m False kw' = Some out2 \<and> cls self' = cls self"
    and c: "c1 \<in> set (sent out1)" "c2 \<in> set (sent out2)"
  from a have o1: "make_request rq self w u b params auth m True kw = Some out1"
    and o2: "make_request rq' self' w' u b params auth' m False kw' = Some out2"
    and cl: "cls self' = cls self" by simp_all
  note p1 = sent_parameters[OF o1 c(1)] and p2 = sent_parameters[OF o2 c(2)]
  show "normalized_url (request c1) = normalized_url (request c2)"
    using p1(2) p2(2) cl by (simp add: req_uri_def split: option.splits)
  show "http_method (request c1) = http_method (request c2)"
    using p1(3) p2(3) by simp
  show "parameters (request c1) = parameters (request c2)"
    using p1(1) p2(1) by simp
qed

theorem signature_url_is_main_domain_witness:
  "url (request (sent (the (make_request mock album 0 '''' None (Some [(''id'', VStr ''pics'')])
        REQUIRED ''DELETE'' True no_kwargs)) ! 1)) =
     ''http://s123.host.com/album/!'' \<and>
   normalized_url (request (sent (the (make_request mock album 0 '''' None (Some [(''id'', VStr ''pics'')])
        REQUIRED ''DELETE'' True no_kwargs)) ! 1)) =
     ''http://api.photobucket.com/album/!'' \<and>
   normalized_url (request (sent (the (make_request mock album 0 '''' None (Some [(''id'', VStr ''pics'')])
        REQUIRED ''DELETE'' True no_kwargs)) ! 1)) =
     normalized_url (request (hd (sent (the (make_request mock album 0 '''' None (Some [(''id'', VStr ''pics'')])
        REQUIRED ''DELETE'' False no_kwargs))))) \<and>
   http_method (request (sent (the (make_request mock album 0 '''' None (Some [(''id'', VStr ''pics'')])
        REQUIRED ''DELETE'' True no_kwargs)) ! 1)) =
     http_method (request (hd (sent (the (make_request mock album 0 '''' None (Some [(''id'', VStr ''pics'')])
        REQUIRED ''DELETE'' False no_kwargs))))) \<and>
   parameters (request (sent (the (make_request mock album 0 '''' None (Some [(''id'', VStr ''pics'')])
        REQUIRED ''DELETE'' True no_kwargs)) ! 1)) =
     parameters (request (hd (sent (the (make_request mock album 0 '''' None (Some [(''id'', VStr ''pics'')])
        REQUIRED ''DELETE'' False no_kwargs)))))"
  using signature_url_is_main_domain [where rq = mock and self = album and w = 0 and u = "''''"
      and b = None and params = "Some [(''id'', VStr ''pics'')]" and auth = REQUIRED
      and m = "''DELETE''" and silo = True and kw = no_kwargs and rq' = mock and self' = album
      and w' = 0 and auth' = REQUIRED and kw' = no_kwargs
      and out = "the (make_request mock album 0 '''' None (Some [(''id'', VStr ''pics'')])
                        REQUIRED ''DELETE'' True no_kwargs)"
      and ?out1.0 = "the (make_request mock album 0 '''' None (Some [(''id'', VStr ''pics'')])
                        REQUIRED ''DELETE'' True no_kwargs)"
      and ?out2.0 = "the (make_request mock album 0 '''' None (Some [(''id'', VStr ''pics'')])
                        REQUIRED ''DELETE'' False no_kwargs)"]
  unfolding album_silo_run album_main_run option.sel
  by (simp add: req_uri_def album_def init_def build_call_def)

subsection \<open>C3: the subdomain taken from the redirect\<close>

text \<open>
  C3, as amended. The claim speaks of every call whose response is a 301. The branch
  of line 178 is entered only when \<^verbatim>\<open>raise_for_status\<close> raises, and only a call with
  \<^verbatim>\<open>silo=True\<close> is sent to the stored subdomain (lines 151 to 160). On a call with
  \<^verbatim>\<open>silo=True\<close>, when the transport raises an \<^verbatim>\<open>HTTPError\<close> with status 301 and the
  parsed body has \<^verbatim>\<open>content.subdomain\<close> of the form \<open>scheme://host\<close> (no slash in the
  scheme or in the host), \<open>host\<close> is stored as the subdomain and the call goes on as
  the same call on the client with \<open>host\<close> stored. The second request sent is the one
  built from that client, and its address is \<open>http://host\<close> followed by the path.
\<close>

theorem redirect_stores_host_and_reissues:
  assumes "build_token self auth = Inr tok"
    and "getattr rq (lower m) = Some (Method f)"
    and "f (build_call self tok u b (prepare_params params) m True kw) w = (Inr r, w')"
    and "raise_for_status rq r False = Some e"
    and "status_code (http_response e) = 301"
    and "map_of (prepare_params params) ''format'' = Some fmt"
    and "parse_response (json_loads rq) (content (http_response e)) fmt = Inr j"
    and "getitem j ''content'' = Inr c1"
    and "getitem c1 ''subdomain'' = Inr (JStr (scheme @ ''//'' @ host))"
    and "CHR ''/'' \<notin> set scheme" and "CHR ''/'' \<notin> set host"
  shows "make_request rq self w u b params auth m True kw =
           Option.bind
             (make_request rq (self\<lparr>subdomain := host\<rparr>) w' u b
                (Some (prepare_params params)) auth m True kw)
             (\<lambda>out. Some (out\<lparr>params_after :=
                                  (if aliased params then params_after out else params),
                                sent := build_call self tok u b (prepare_params params) m True kw
                                          # sent out\<rparr>)) \<and>
         (make_request rq self w u b params auth m True kw = Some out \<longrightarrow>
            (\<exists>rest. sent out =
               build_call self tok u b (prepare_params params) m True kw #
               build_call (self\<lparr>subdomain := host\<rparr>) tok u b (prepare_params params) m True kw #
               rest) \<and>
            url (request (sent out ! 1)) = ''http://'' @ host @ req_uri self b u)"
proof -
  let ?p = "prepare_params params"
  let ?c = "build_call self tok u b ?p m True kw"
  let ?self' = "self\<lparr>subdomain := host\<rparr>"
  have red: "status_code (http_response e) = REDIRECT"
    using assms(5) by (simp add: REDIRECT_def)
  have raised: "raise_for_status rq r (\<not> True) = Some e"
    using assms(4) by simp
  have sub: "redirect_subdomain (json_loads rq) (content (http_response e)) ?p = Inr host"
    by (rule redirect_subdomain_scheme_host[OF assms(6-11)])
  note eq = make_request_Again[OF pass_redirect[OF assms(1-3) raised red sub]]
  have idem: "prepare_params (Some ?p) = ?p"
    using assms(6) by (simp add: prepare_params_idem)
  have second: "\<exists>rest. sent out =
      ?c # build_call ?self' tok u b ?p m True kw # rest"
    if "make_request rq self w u b params auth m True kw = Some out" for out
  proof -
    from that eq obtain o1 where
      o1: "make_request rq ?self' w' u b (Some ?p) auth m True kw = Some o1"
      and out: "sent out = ?c # sent o1"
      by (auto simp: bind_eq_Some_conv)
    have "build_token ?self' auth = Inr tok"
      using assms(1) by (simp add: build_token_subdomain)
    from first_call[OF o1 this assms(2)] idem out show ?thesis by auto
  qed
  have "url (request (sent out ! 1)) = ''http://'' @ host @ req_uri self b u"
    if "make_request rq self w u b params auth m True kw = Some out" for out
    using second[OF that] by (auto simp: build_call_def req_uri_subdomain)
  with eq second show ?thesis by blast
qed

theorem redirect_stores_host_and_reissues_witness:
  "make_request mock album 0 '''' None (Some [(''id'', VStr ''pics'')]) REQUIRED ''DELETE'' True
     no_kwargs =
   Option.bind
     (make_request mock (album\<lparr>subdomain := ''s123.host.com''\<rparr>) 1 '''' None
        (Some [(''id'', VStr ''pics''), (''format'', VStr ''json'')]) REQUIRED ''DELETE'' True
        no_kwargs)
     (\<lambda>out. Some (out\<lparr>params_after := params_after out,
                        sent := build_call album (Some (''token'', ''token_secret'')) '''' None
                                  [(''id'', VStr ''pics''), (''format'', VStr ''json'')]
                                  ''DELETE'' True no_kwargs # sent out\<rparr>)) \<and>
   url (request (sent (the (make_request mock album 0 '''' None (Some [(''id'', VStr ''pics'')])
                              REQUIRED ''DELETE'' True no_kwargs)) ! 1)) =
     ''http://s123.host.com/album/!''"
  using redirect_stores_host_and_reissues [where rq = mock and self = album and w = 0
      and u = "''''" and b = None and params = "Some [(''id'', VStr ''pics'')]"
      and auth = REQUIRED and m = "''DELETE''" and kw = no_kwargs
      and tok = "Some (''token'', ''token_secret'')" and f = mock_server
      and r = "\<lparr>status_code = 301, content = moved_to ''s123.host.com''\<rparr>" and w' = 1
      and e = "\<lparr>message = ''Redirection'',
                http_response = \<lparr>status_code = 301, content = moved_to ''s123.host.com''\<rparr>\<rparr>"
      and fmt = "VStr ''json''"
      and j = "JObj [(''content'', JObj [(''subdomain'', JStr ''http://s123.host.com'')])]"
      and ?c1.0 = "JObj [(''subdomain'', JStr ''http://s123.host.com'')]"
      and scheme = "''http:''" and host = "''s123.host.com''"
      and out = "the (make_request mock album 0 '''' None (Some [(''id'', VStr ''pics'')])
                        REQUIRED ''DELETE'' True no_kwargs)"]
  unfolding album_silo_run option.sel
  by (simp add: make_request.simps mock_defs model_defs)

text \<open>
  The call \<^verbatim>\<open>get_url('pics')\<close> of an album client, which has \<^verbatim>\<open>silo=False\<close>, answered
  by a 301 whose body names the silo in the form the claim asks for: the transport
  does not raise for it, the 301 is returned as the result of the call, the stored
  subdomain is still the main domain, and the request has been sent once.
\<close>

theorem nonsilo_redirect_counterexample:
  "redirect_subdomain mock_loads (moved_to ''s123.host.com'')
     [(''id'', VStr ''pics''), (''format'', VStr ''json'')] = Inr ''s123.host.com'' \<and>
   make_request mock album 0 ''/url'' None (Some [(''id'', VStr ''pics'')]) REQUIRED ''GET'' False
     no_kwargs =
     Some \<lparr>result = Inr \<lparr>status_code = 301, content = moved_to ''s123.host.com''\<rparr>,
           self_after = album,
           params_after = Some [(''id'', VStr ''pics''), (''format'', VStr ''json'')],
           world = 1,
           sent = [build_call album (Some (''token'', ''token_secret'')) ''/url'' None
                     [(''id'', VStr ''pics''), (''format'', VStr ''json'')] ''GET'' False
                     no_kwargs]\<rparr> \<and>
   subdomain album = ''api.photobucket.com''"
  by (simp add: make_request.simps mock_defs model_defs)

subsection \<open>C4: a missing token\<close>

text \<open>
  C4. On a client whose \<^verbatim>\<open>token\<close> or \<^verbatim>\<open>token_secret\<close> is \<^verbatim>\<open>None\<close>, a call with
  \<^verbatim>\<open>auth == REQUIRED\<close> raises \<^verbatim>\<open>PhotobucketAPIError\<close> with no call to the transport and
  the network as it was. With \<^verbatim>\<open>NOT_REQUIRED\<close> or \<^verbatim>\<open>OPTIONAL\<close> the request is built
  without a token: that error is not raised, and when the method is one of the
  request functions of the transport the request is sent, unsigned by any token.
\<close>

theorem missing_token_required_or_tolerated:
  assumes "token self = None \<or> token_secret self = None"
  shows "(auth = REQUIRED \<longrightarrow>
            make_request rq self w u b params auth m silo kw =
              Some \<lparr>result = Inl (PhotobucketAPIError ''Token and Token secret must be set.''),
                    self_after = self,
                    params_after =
                      (if aliased params then Some (prepare_params params) else params),
                    world = w, sent = []\<rparr>) \<and>
         (auth = NOT_REQUIRED \<or> auth = OPTIONAL \<longrightarrow>
            build_token self auth = Inr None \<and>
            (make_request rq self w u b params auth m silo kw = Some out \<longrightarrow>
               result out \<noteq> Inl (PhotobucketAPIError ''Token and Token secret must be set.'') \<and>
               ((\<exists>f. getattr rq (lower m) = Some (Method f)) \<longrightarrow>
                  (\<exists>rest. sent out =
                     build_call self None u b (prepare_params params) m silo kw # rest))))"
proof (intro conjI impI)
  assume "auth = REQUIRED"
  then have "build_token self auth =
      Inl (PhotobucketAPIError ''Token and Token secret must be set.'')"
    using build_token_missing[OF assms] by simp
  from make_request_Done[OF pass_auth_error[OF this]]
  show "make_request rq self w u b params auth m silo kw =
      Some \<lparr>result = Inl (PhotobucketAPIError ''Token and Token secret must be set.''),
            self_after = self,
            params_after = (if aliased params then Some (prepare_params params) else params),
            world = w, sent = []\<rparr>" .
next
  assume a: "auth = NOT_REQUIRED \<or> auth = OPTIONAL"
  then show t: "build_token self auth = Inr None"
    using build_token_missing[OF assms, of auth]
    by (auto simp: REQUIRED_def NOT_REQUIRED_def OPTIONAL_def)
  assume o: "make_request rq self w u b params auth m silo kw = Some out"
  from make_request_invariant[OF o] t
  show "result out \<noteq> Inl (PhotobucketAPIError ''Token and Token secret must be set.'')"
    by auto
  assume "\<exists>f. getattr rq (lower m) = Some (Method f)"
  then obtain f where "getattr rq (lower m) = Some (Method f)" by auto
  from first_call[OF o t this]
  show "\<exists>rest. sent out = build_call self None u b (prepare_params params) m silo kw # rest" .
qed

theorem missing_token_required_or_tolerated_witness:
  "token anonymous = None \<and> token_secret anonymous = None \<and>
   make_request mock anonymous 0 '''' None (Some [(''id'', VStr ''pics'')]) REQUIRED ''GET'' False
     no_kwargs =
     Some \<lparr>result = Inl (PhotobucketAPIError ''Token and Token secret must be set.''),
           self_after = anonymous,
           params_after = Some [(''id'', VStr ''pics''), (''format'', VStr ''json'')],
           world = 0, sent = []\<rparr> \<and>
   result (the (make_request mock anonymous 0 '''' None (Some [(''id'', VStr ''pics'')]) OPTIONAL
                  ''GET'' False no_kwargs))
     \<noteq> Inl (PhotobucketAPIError ''Token and Token secret must be set.'') \<and>
   oauth_token (request (hd (sent (the (make_request mock anonymous 0 '''' None
       (Some [(''id'', VStr ''pics'')]) OPTIONAL ''GET'' False no_kwargs))))) = None"
  using missing_token_required_or_tolerated [where self = anonymous and auth = REQUIRED
      and rq = mock and w = 0 and u = "''''" and b = None
      and params = "Some [(''id'', VStr ''pics'')]" and m = "''GET''" and silo = False
      and kw = no_kwargs]
    missing_token_required_or_tolerated [where self = anonymous and auth = OPTIONAL
      and rq = mock and w = 0 and u = "''''" and b = None
      and params = "Some [(''id'', VStr ''pics'')]" and m = "''GET''" and silo = False
      and kw = no_kwargs
      and out = "the (make_request mock anonymous 0 '''' None (Some [(''id'', VStr ''pics'')])
                        OPTIONAL ''GET'' False no_kwargs)"]
  unfolding anonymous_optional_run option.sel
  by (auto simp: mock_defs model_defs)

subsection \<open>C5: a method the transport does not have\<close>

text \<open>
  C5. A call whose method is not one of the request functions of the transport is
  to raise \<^verbatim>\<open>PhotobucketAPIError\<close> with nothing sent: the docstring of that class
  names the request with an invalid HTTP method as its example, and line 171 does so
  when the module has no attribute of that name. The code misses the names that the
  module has for something else. With the method \<^verbatim>\<open>SESSION\<close> line 169 finds
  \<^verbatim>\<open>requests.session\<close> and calls it with the URL and the two keywords; that call
  raises \<^verbatim>\<open>TypeError\<close>, which no clause of the \<^verbatim>\<open>try\<close> catches. Nothing is sent.
\<close>

theorem session_method_raises_TypeError:
  "getattr mock (lower ''SESSION'') = Some Other \<and>
   make_request mock album 0 '''' None (Some [(''id'', VStr ''pics'')]) REQUIRED ''SESSION'' True
     no_kwargs =
     Some \<lparr>result = Inl TypeError,
           self_after = album,
           params_after = Some [(''id'', VStr ''pics''), (''format'', VStr ''json'')],
           world = 0, sent = []\<rparr>"
  by (simp add: make_request.simps mock_defs model_defs)

subsection \<open>C8: any other HTTP error\<close>

text \<open>
  C8. When the transport raises an \<^verbatim>\<open>HTTPError\<close> whose response has a status other
  than 301, the call raises \<^verbatim>\<open>PhotobucketError\<close> with the message and the response of
  that error; the request was sent once and is not sent again, and the client is as
  it was.
\<close>

theorem http_error_is_wrapped:
  assumes "build_token self auth = Inr tok"
    and "getattr rq (lower m) = Some (Method f)"
    and "f (build_call self tok u b (prepare_params params) m silo kw) w = (Inr r, w')"
    and "raise_for_status rq r (\<not> silo) = Some e"
    and "status_code (http_response e) \<noteq> 301"
  shows "make_request rq self w u b params auth m silo kw =
           Some \<lparr>result = Inl (PhotobucketError (message e) (http_response e)),
                 self_after = self,
                 params_after =
                   (if aliased params then Some (prepare_params params) else params),
                 world = w',
                 sent = [build_call self tok u b (prepare_params params) m silo kw]\<rparr>"
proof -
  have "status_code (http_response e) \<noteq> REDIRECT"
    using assms(5) by (simp add: REDIRECT_def)
  from make_request_Done[OF pass_http_error[OF assms(1-4) this]] show ?thesis .
qed

theorem http_error_is_wrapped_witness:
  "make_request mock album 0 ''/privacy'' None
     (Some [(''id'', VStr ''pics''), (''privacy'', VStr ''private'')]) REQUIRED ''POST'' True
     no_kwargs =
   Some \<lparr>result = Inl (PhotobucketError ''Client Error'' \<lparr>status_code = 404, content = ''{}''\<rparr>),
         self_after = album,
         params_after = Some [(''id'', VStr ''pics''), (''privacy'', VStr ''private''),
                              (''format'', VStr ''json'')],
         world = 1,
         sent = [build_call album (Some (''token'', ''token_secret'')) ''/privacy'' None
                   [(''id'', VStr ''pics''), (''privacy'', VStr ''private''),
                    (''format'', VStr ''json'')] ''POST'' True no_kwargs]\<rparr>"
  using http_error_is_wrapped [where rq = mock and self = album and w = 0 and u = "''/privacy''"
      and b = None and params = "Some [(''id'', VStr ''pics''), (''privacy'', VStr ''private'')]"
      and auth = REQUIRED and m = "''POST''" and silo = True and kw = no_kwargs
      and tok = "Some (''token'', ''token_secret'')" and f = mock_server
      and r = "\<lparr>status_code = 404, content = ''{}''\<rparr>" and w' = 1
      and e = "\<lparr>message = ''Client Error'',
                http_response = \<lparr>status_code = 404, content = ''{}''\<rparr>\<rparr>"]
  by (simp add: mock_defs model_defs)

subsection \<open>C6: parameters without a value\<close>

text \<open>
  C6. \<^verbatim>\<open>remove_empty\<close> deletes the keys whose value is \<^verbatim>\<open>None\<close> and no other, and
  every request that \<^verbatim>\<open>make_request\<close> hands to the signing library and sends has the
  parameters without them: no parameter of a request is \<^verbatim>\<open>None\<close>, a key that the
  caller maps to \<^verbatim>\<open>None\<close> is absent, and a key mapped to the empty string is kept
  with the empty string.
\<close>

theorem none_params_are_dropped:
  "map_of (remove_empty d) k = (if map_of d k = Some VNone then None else map_of d k) \<and>
   (make_request rq self w u b (Some d) auth m silo kw = Some out \<longrightarrow>
    c \<in> set (sent out) \<longrightarrow>
      map_of (parameters (request c)) k \<noteq> Some VNone \<and>
      (map_of d k = Some VNone \<longrightarrow> map_of (parameters (request c)) k = None) \<and>
      (map_of d k = Some (VStr '''') \<longrightarrow> map_of (parameters (request c)) k = Some (VStr '''')))"
proof (intro conjI impI)
  show "map_of (remove_empty d) k = (if map_of d k = Some VNone then None else map_of d k)"
    by (rule map_of_remove_empty)
next
  assume "make_request rq self w u b (Some d) auth m silo kw = Some out" "c \<in> set (sent out)"
  from sent_parameters(1)[OF this]
  have p: "parameters (request c) = prepare_params (Some d)" .
  show "map_of (parameters (request c)) k \<noteq> Some VNone"
    by (simp add: p prepare_params_no_None)
  show "map_of (parameters (request c)) k = None" if "map_of d k = Some VNone"
    using that by (auto simp: p map_of_prepare_params Let_def)
  show "map_of (parameters (request c)) k = Some (VStr '''')" if "map_of d k = Some (VStr '''')"
    using that by (auto simp: p map_of_prepare_params Let_def)
qed

theorem none_params_are_dropped_witness:
  "map_of [(''id'', VList [''a'', ''b'']), (''aid'', VNone), (''email'', VStr '''')] ''aid''
     = Some VNone \<and>
   map_of [(''id'', VList [''a'', ''b'']), (''aid'', VNone), (''email'', VStr '''')] ''email''
     = Some (VStr '''') \<and>
   map_of (parameters (request (hd (sent (the (make_request mock album 0 ''/follow/!'' None
     (Some [(''id'', VList [''a'', ''b'']), (''aid'', VNone), (''email'', VStr '''')])
     REQUIRED ''POST'' True no_kwargs)))))) ''aid'' = None \<and>
   map_of (parameters (request (hd (sent (the (make_request mock album 0 ''/follow/!'' None
     (Some [(''id'', VList [''a'', ''b'']), (''aid'', VNone), (''email'', VStr '''')])
     REQUIRED ''POST'' True no_kwargs)))))) ''email'' = Some (VStr '''')"
  using none_params_are_dropped [where rq = mock and self = album and w = 0
      and u = "''/follow/!''" and b = None
      and d = "[(''id'', VList [''a'', ''b'']), (''aid'', VNone), (''email'', VStr '''')]"
      and auth = REQUIRED and m = "''POST''" and silo = True and kw = no_kwargs
      and k = "''aid''"
      and out = "the (make_request mock album 0 ''/follow/!'' None
        (Some [(''id'', VList [''a'', ''b'']), (''aid'', VNone), (''email'', VStr '''')])
        REQUIRED ''POST'' True no_kwargs)"
      and c = "hd (sent (the (make_request mock album 0 ''/follow/!'' None
        (Some [(''id'', VList [''a'', ''b'']), (''aid'', VNone), (''email'', VStr '''')])
        REQUIRED ''POST'' True no_kwargs)))"]
    none_params_are_dropped [where rq = mock and self = album and w = 0
      and u = "''/follow/!''" and b = None
      and d = "[(''id'', VList [''a'', ''b'']), (''aid'', VNone), (''email'', VStr '''')]"
      and auth = REQUIRED and m = "''POST''" and silo = True and kw = no_kwargs
      and k = "''email''"
      and out = "the (make_request mock album 0 ''/follow/!'' None
        (Some [(''id'', VList [''a'', ''b'']), (''aid'', VNone), (''email'', VStr '''')])
        REQUIRED ''POST'' True no_kwargs)"
      and c = "hd (sent (the (make_request mock album 0 ''/follow/!'' None
        (Some [(''id'', VList [''a'', ''b'']), (''aid'', VNone), (''email'', VStr '''')])
        REQUIRED ''POST'' True no_kwargs)))"]
  unfolding album_follow_run option.sel
  by (simp add: build_call_def)

subsection \<open>C7: an identifier given as path segments\<close>

text \<open>
  C7. \<^verbatim>\<open>clean_identifier\<close> turns a list of segments into one string, the segments
  with \<^verbatim>\<open>%2F\<close> between them (\<^verbatim>\<open>["a","b"]\<close> gives \<^verbatim>\<open>a%2Fb\<close>), and \<^verbatim>\<open>make_request\<close> applies
  it to \<^verbatim>\<open>params['id']\<close> before anything else reads the parameters: in no request sent
  is the \<^verbatim>\<open>id\<close> a list, and a list given by the caller is there as the joined string.
\<close>

theorem list_identifier_is_joined:
  "clean_identifier (VList []) = VStr [] \<and>
   clean_identifier (VList (x # xs)) = VStr (x @ concat (map ((@) ''%2F'') xs)) \<and>
   clean_identifier (VList [''a'', ''b'']) = VStr ''a%2Fb'' \<and>
   (make_request rq self w u b (Some d) auth m silo kw = Some out \<longrightarrow>
    c \<in> set (sent out) \<longrightarrow>
      (\<forall>ys. map_of (parameters (request c)) ''id'' \<noteq> Some (VList ys)) \<and>
      (map_of d ''id'' = Some (VList (x # xs)) \<longrightarrow>
         map_of (parameters (request c)) ''id'' =
           Some (VStr (x @ concat (map ((@) ''%2F'') xs)))))"
proof (intro conjI impI allI)
  show "clean_identifier (VList []) = VStr []" by simp
  show "clean_identifier (VList (x # xs)) = VStr (x @ concat (map ((@) ''%2F'') xs))"
    by (simp add: join_concat)
  show "clean_identifier (VList [''a'', ''b'']) = VStr ''a%2Fb''" by simp
next
  fix ys
  assume "make_request rq self w u b (Some d) auth m silo kw = Some out" "c \<in> set (sent out)"
  from sent_parameters(1)[OF this]
  have p: "parameters (request c) = prepare_params (Some d)" .
  show "map_of (parameters (request c)) ''id'' \<noteq> Some (VList ys)"
    by (auto simp: p map_of_prepare_params Let_def clean_identifier_not_list)
next
  assume "make_request rq self w u b (Some d) auth m silo kw = Some out" "c \<in> set (sent out)"
  from sent_parameters(1)[OF this]
  have p: "parameters (request c) = prepare_params (Some d)" .
  assume "map_of d ''id'' = Some (VList (x # xs))"
  then show "map_of (parameters (request c)) ''id'' =
      Some (VStr (x @ concat (map ((@) ''%2F'') xs)))"
    by (simp add: p map_of_prepare_params join_concat)
qed

theorem list_identifier_is_joined_witness:
  "map_of [(''id'', VList [''a'', ''b'']), (''aid'', VNone), (''email'', VStr '''')] ''id''
     = Some (VList [''a'', ''b'']) \<and>
   map_of (parameters (request (hd (sent (the (make_request mock album 0 ''/follow/!'' None
     (Some [(''id'', VList [''a'', ''b'']), (''aid'', VNone), (''email'', VStr '''')])
     REQUIRED ''POST'' True no_kwargs)))))) ''id'' = Some (VStr ''a%2Fb'')"
  using list_identifier_is_joined [where rq = mock and self = album and w = 0
      and u = "''/follow/!''" and b = None
      and d = "[(''id'', VList [''a'', ''b'']), (''aid'', VNone), (''email'', VStr '''')]"
      and auth = REQUIRED and m = "''POST''" and silo = True and kw = no_kwargs
      and x = "''a''" and xs = "[''b'']"
      and out = "the (make_request mock album 0 ''/follow/!'' None
        (Some [(''id'', VList [''a'', ''b'']), (''aid'', VNone), (''email'', VStr '''')])
        REQUIRED ''POST'' True no_kwargs)"
      and c = "hd (sent (the (make_request mock album 0 ''/follow/!'' None
        (Some [(''id'', VList [''a'', ''b'']), (''aid'', VNone), (''email'', VStr '''')])
        REQUIRED ''POST'' True no_kwargs)))"]
  unfolding album_follow_run option.sel
  by (simp add: build_call_def)

subsection \<open>C9: the caller's parameters\<close>

text \<open>
  C9, as amended. The claim says that the caller's \<^verbatim>\<open>params\<close> mapping is left as it
  was. \<^verbatim>\<open>params or dict()\<close> keeps the caller's dictionary when it is not empty, and
  \<^verbatim>\<open>setdefault\<close>, the assignment to \<^verbatim>\<open>params['id']\<close> and \<^verbatim>\<open>remove_empty\<close> all update
  it in place: after the call it holds the prepared parameters, that is \<^verbatim>\<open>format\<close> set
  to \<^verbatim>\<open>json\<close> when the key was missing, an \<^verbatim>\<open>id\<close> list joined into a string, and the
  keys with value \<^verbatim>\<open>None\<close> deleted. A \<^verbatim>\<open>params\<close> that is \<^verbatim>\<open>None\<close> or empty is left as it
  was. Of the client, nothing but the stored subdomain changes.
\<close>

theorem params_are_prepared_in_place:
  assumes "make_request rq self w u b params auth m silo kw = Some out"
  shows "params_after out = (if aliased params then Some (prepare_params params) else params) \<and>
         (\<exists>s. self_after out = self\<lparr>subdomain := s\<rparr>) \<and>
         map_of (prepare_params params) k =
           (let d = (case params of None \<Rightarrow> [] | Some d \<Rightarrow> d);
                v = (if k = ''format'' \<and> map_of d k = None then Some (VStr ''json'')
                     else map_of d k);
                v' = (if k = ''id'' then map_option clean_identifier v else v)
            in if v' = Some VNone then None else v')"
  using make_request_invariant[OF assms] map_of_prepare_params[of params k] by blast

theorem params_are_prepared_in_place_witness:
  "params_after (the (make_request mock album 0 ''/follow/!'' None
     (Some [(''id'', VList [''a'', ''b'']), (''aid'', VNone), (''email'', VStr '''')])
     REQUIRED ''POST'' True no_kwargs)) =
     Some (prepare_params
       (Some [(''id'', VList [''a'', ''b'']), (''aid'', VNone), (''email'', VStr '''')])) \<and>
   map_of (prepare_params
       (Some [(''id'', VList [''a'', ''b'']), (''aid'', VNone), (''email'', VStr '''')]))
     ''format'' = Some (VStr ''json'')"
  using params_are_prepared_in_place [where rq = mock and self = album and w = 0
      and u = "''/follow/!''" and b = None
      and params = "Some [(''id'', VList [''a'', ''b'']), (''aid'', VNone), (''email'', VStr '''')]"
      and auth = REQUIRED and m = "''POST''" and silo = True and kw = no_kwargs
      and k = "''format''"
      and out = "the (make_request mock album 0 ''/follow/!'' None
        (Some [(''id'', VList [''a'', ''b'']), (''aid'', VNone), (''email'', VStr '''')])
        REQUIRED ''POST'' True no_kwargs)"]
  unfolding album_follow_run option.sel
  by (simp add: aliased_def)

text \<open>
  The call \<^verbatim>\<open>follow(['a', 'b'], email='')\<close> of an album client: the dictionary built
  by the caller has lost \<^verbatim>\<open>aid\<close>, has gained \<^verbatim>\<open>format\<close>, and its \<^verbatim>\<open>id\<close> is a string.
\<close>

theorem caller_params_counterexample:
  "map_option params_after
     (make_request mock album 0 ''/follow/!'' None
        (Some [(''id'', VList [''a'', ''b'']), (''aid'', VNone), (''email'', VStr '''')])
        REQUIRED ''POST'' True no_kwargs) =
     Some (Some [(''id'', VStr ''a%2Fb''), (''email'', VStr ''''), (''format'', VStr ''json'')]) \<and>
   map_option params_after
     (make_request mock album 0 ''/follow/!'' None
        (Some [(''id'', VList [''a'', ''b'']), (''aid'', VNone), (''email'', VStr '''')])
        REQUIRED ''POST'' True no_kwargs) \<noteq>
     Some (Some [(''id'', VList [''a'', ''b'']), (''aid'', VNone), (''email'', VStr '''')])"
  by (simp add: album_follow_run)

subsection \<open>C10: the fields of the client\<close>

text \<open>
  C10. Whatever a call returns or raises, \<^verbatim>\<open>key\<close>, \<^verbatim>\<open>secret\<close>, \<^verbatim>\<open>token\<close> and
  \<^verbatim>\<open>token_secret\<close> of the client are what they were (and so is its class), and the
  subdomain has changed only if the first request was answered by an \<^verbatim>\<open>HTTPError\<close> with
  status 301: the branch of line 183.
\<close>

theorem credentials_are_kept:
  assumes "make_request rq self w u b params auth m silo kw = Some out"
  shows "key (self_after out) = key self \<and> secret (self_after out) = secret self \<and>
         token (self_after out) = token self \<and>
         token_secret (self_after out) = token_secret self \<and>
         cls (self_after out) = cls self \<and>
         (subdomain (self_after out) \<noteq> subdomain self \<longrightarrow>
            (\<exists>tok f r w' e.
               build_token self auth = Inr tok \<and> getattr rq (lower m) = Some (Method f) \<and>
               f (build_call self tok u b (prepare_params params) m silo kw) w = (Inr r, w') \<and>
               raise_for_status rq r (\<not> silo) = Some e \<and>
               status_code (http_response e) = 301))"
proof -
  from make_request_invariant[OF assms]
  obtain s where "self_after out = self\<lparr>subdomain := s\<rparr>" by blast
  then have fields: "key (self_after out) = key self" "secret (self_after out) = secret self"
    "token (self_after out) = token self" "token_secret (self_after out) = token_secret self"
    "cls (self_after out) = cls self"
    by simp_all
  have "\<exists>tok f r w' e.
      build_token self auth = Inr tok \<and> getattr rq (lower m) = Some (Method f) \<and>
      f (build_call self tok u b (prepare_params params) m silo kw) w = (Inr r, w') \<and>
      raise_for_status rq r (\<not> silo) = Some e \<and> status_code (http_response e) = 301"
    if changed: "subdomain (self_after out) \<noteq> subdomain self"
  proof (cases "pass rq self w u b params auth m silo kw")
    case (Done o1)
    with assms have "out = o1" by (simp add: make_request.simps)
    with pass_Done(1)[OF Done] changed show ?thesis by simp
  next
    case (Again self' w' p c)
    from pass_Again_cause[OF this] show ?thesis unfolding REDIRECT_def by blast
  qed
  with fields show ?thesis by blast
qed

theorem credentials_are_kept_witness:
  "key (self_after (the (make_request mock album 0 '''' None (Some [(''id'', VStr ''pics'')])
      REQUIRED ''DELETE'' True no_kwargs))) = ''key'' \<and>
   token (self_after (the (make_request mock album 0 '''' None (Some [(''id'', VStr ''pics'')])
      REQUIRED ''DELETE'' True no_kwargs))) = Some ''token'' \<and>
   subdomain (self_after (the (make_request mock album 0 '''' None (Some [(''id'', VStr ''pics'')])
      REQUIRED ''DELETE'' True no_kwargs))) = ''s456.host.com'' \<and>
   subdomain album = ''api.photobucket.com'' \<and>
   fst (mock_server (build_call album (Some (''token'', ''token_secret'')) '''' None
       [(''id'', VStr ''pics''), (''format'', VStr ''json'')] ''DELETE'' True no_kwargs) 0) =
     Inr \<lparr>status_code = 301, content = moved_to ''s123.host.com''\<rparr>"
  using credentials_are_kept [where rq = mock and self = album and w = 0 and u = "''''"
      and b = None and params = "Some [(''id'', VStr ''pics'')]" and auth = REQUIRED
      and m = "''DELETE''" and silo = True and kw = no_kwargs
      and out = "the (make_request mock album 0 '''' None (Some [(''id'', VStr ''pics'')])
                        REQUIRED ''DELETE'' True no_kwargs)"]
  unfolding album_silo_run option.sel
  by (simp add: mock_defs model_defs)

end
